theory Spec2Isabelle
  imports Main
begin

section \<open>Values shared by the Lambda handlers\<close>

text \<open>
  JSON values as Python's \<open>json.loads\<close> returns them.  A dict is an association list
  read with \<open>map_of\<close>.
\<close>

datatype json =
    JNull
  | JBool bool
  | JNum int
  | JStr string
  | JArr "json list"
  | JObj "(string \<times> json) list"

text \<open>Exceptions that leave a function, and the outcome of a call that may raise.\<close>

datatype exn = KeyError string | TypeError | AttributeError | ValueError | RecursionError

datatype 'a py = Returned 'a | Raised exn

text \<open>
  What \<open>json.loads\<close> does on a text: it returns the value, raises JSONDecodeError, or
  raises another exception (on CPython, ValueError for an integer literal of more than 4300
  digits and RecursionError for brackets nested too deeply; neither is a JSONDecodeError).
\<close>

datatype loaded = Parsed json | JSONDecodeError | LoadsRaised exn

text \<open>\<open>d[key]\<close>: a missing key raises KeyError, a value that is no dict raises TypeError.\<close>

fun subscript :: "json \<Rightarrow> string \<Rightarrow> json py" where
  "subscript (JObj kvs) k =
     (case map_of kvs k of None \<Rightarrow> Raised (KeyError k) | Some v \<Rightarrow> Returned v)"
| "subscript _ k = Raised TypeError"

text \<open>\<open>d.get(key, default)\<close>: a value that is no dict has no \<open>get\<close> (AttributeError).\<close>

fun dict_get :: "json \<Rightarrow> string \<Rightarrow> json \<Rightarrow> json py" where
  "dict_get (JObj kvs) k dflt =
     (case map_of kvs k of None \<Rightarrow> Returned dflt | Some v \<Rightarrow> Returned v)"
| "dict_get _ k dflt = Raised AttributeError"

text \<open>
  \<open>prompt[:100]\<close> is evaluated for the log line: strings and lists can be sliced.  On the
  deployed runtime (Python 3.12) a dict looks the slice up as a key and raises KeyError;
  the other values raise TypeError.  The result is the exception raised, if any.
\<close>

fun slice_error :: "json \<Rightarrow> exn option" where
  "slice_error (JStr s) = None"
| "slice_error (JArr xs) = None"
| "slice_error (JObj kvs) = Some (KeyError ''slice(None, 100, None)'')"
| "slice_error _ = Some TypeError"

section \<open>The Bedrock response stream\<close>

text \<open>
  One event of \<open>response["body"]\<close>.  \<open>NoChunk\<close> is an event without the key
  \<open>"chunk"\<close>.  \<open>Chunk ty d\<close> is an event whose decoded \<open>chunk_data\<close> has
  \<open>chunk_data.get("type") = ty\<close>; \<open>d\<close> is \<open>None\<close> when \<open>chunk_data\<close> has no
  \<open>"delta"\<close>, \<open>Some None\<close> when the delta has no \<open>"text"\<close>, and
  \<open>Some (Some t)\<close> when the delta's text is \<open>t\<close>.
\<close>

datatype event = NoChunk | Chunk "string option" "string option option"

text \<open>
  One pull from the lazy stream: the next event, or an exception with its \<open>str(e)\<close>
  (raised by the iterator, by decoding a chunk, or by the invocation itself, which is a
  stream whose first pull raises).  The end of the list is the natural end of the stream.
\<close>

datatype pull = Yield event | Raise string

text \<open>\<open>chunk_data.get("delta", {}).get("text", "")\<close>\<close>

fun chunk_text :: "string option option \<Rightarrow> string" where
  "chunk_text None = []"
| "chunk_text (Some None) = []"
| "chunk_text (Some (Some t)) = t"

text \<open>
  The three nested tests both handlers apply to an event: the key \<open>"chunk"\<close>, the type
  \<open>content_block_delta\<close>, and \<open>if text:\<close>.  The result is the text to forward.
\<close>

fun delta_text :: "event \<Rightarrow> string option" where
  "delta_text NoChunk = None"
| "delta_text (Chunk ty d) =
     (if ty = Some ''content_block_delta''
      then (let text = chunk_text d in if text \<noteq> [] then Some text else None)
      else None)"

section \<open>appsync/processing.py\<close>

text \<open>
  One call of \<open>publish_token_to_appsync\<close> with its keyword arguments.  The function
  catches every exception and returns a bool, so a call never raises; its result is
  given by the environment as a function of the number of calls made before it in the run.
\<close>

record publish_call =
  session_id :: json
  token :: string
  is_complete :: bool
  sequence :: nat
  appsync_url :: string
  region :: string

text \<open>The two prints of \<open>process_streaming_request\<close> that report how the run ended.\<close>

datatype proc_log = StreamCompleted nat | StreamError string

record proc_state =
  token_count :: nat
  calls :: "(publish_call \<times> bool) list"

text \<open>The \<open>for chunk in response["body"]\<close> loop; \<open>Some e\<close> is an exception leaving it.\<close>

fun proc_loop :: "(nat \<Rightarrow> bool) \<Rightarrow> (string \<Rightarrow> bool \<Rightarrow> nat \<Rightarrow> publish_call) \<Rightarrow>
    pull list \<Rightarrow> proc_state \<Rightarrow> string option \<times> proc_state" where
  "proc_loop publish mk [] s = (None, s)"
| "proc_loop publish mk (Raise e # rest) s = (Some e, s)"
| "proc_loop publish mk (Yield ev # rest) s =
     (case delta_text ev of
        None \<Rightarrow> proc_loop publish mk rest s
      | Some text \<Rightarrow>
          (let n = token_count s + 1;
               success = publish (length (calls s))
           in proc_loop publish mk rest
                \<lparr>token_count = n, calls = calls s @ [(mk text False n, success)]\<rparr>))"

record proc_result =
  succeeded :: bool
  tokens :: nat
  published :: "(publish_call \<times> bool) list"
  printed :: "proc_log list"

definition mk_call :: "json \<Rightarrow> string \<Rightarrow> string \<Rightarrow> string \<Rightarrow> bool \<Rightarrow> nat \<Rightarrow> publish_call" where
  "mk_call sid url rg tok fin sq =
     \<lparr>session_id = sid, token = tok, is_complete = fin, sequence = sq,
      appsync_url = url, region = rg\<rparr>"

text \<open>
  The \<open>try\<close>/\<open>except Exception\<close> statement of \<open>process_streaming_request\<close>, run on the
  stream the Bedrock invocation gives.  \<open>tokens\<close> is the value of the local
  \<open>token_count\<close> when the function returns.
\<close>

definition process_stream :: "(nat \<Rightarrow> bool) \<Rightarrow> json \<Rightarrow> string \<Rightarrow> string \<Rightarrow> pull list
    \<Rightarrow> proc_result" where
  "process_stream publish sid url rg source =
     (case proc_loop publish (mk_call sid url rg) source \<lparr>token_count = 0, calls = []\<rparr> of
        (None, s) \<Rightarrow>
          \<lparr>succeeded = True, tokens = token_count s,
           published = calls s @
             [(mk_call sid url rg [] True (token_count s + 1), publish (length (calls s)))],
           printed = [StreamCompleted (token_count s)]\<rparr>
      | (Some error_message, s) \<Rightarrow>
          \<lparr>succeeded = False, tokens = token_count s,
           published = calls s @
             [(mk_call sid url rg (''Error: '' @ error_message) True 999,
               publish (length (calls s)))],
           printed = [StreamError error_message]\<rparr>)"

text \<open>
  \<open>process_streaming_request(message_body)\<close>.  The subscripts, the two environment
  variables and the slice of the prompt are evaluated before the \<open>try\<close>, so their
  exceptions leave the function.
\<close>

definition process_streaming_request :: "string option \<Rightarrow> string option \<Rightarrow>
    (json \<Rightarrow> pull list) \<Rightarrow> (nat \<Rightarrow> bool) \<Rightarrow> json \<Rightarrow> proc_result py" where
  "process_streaming_request env_url env_region bedrock publish message_body =
     (case subscript message_body ''prompt'' of
        Raised e \<Rightarrow> Raised e
      | Returned prompt \<Rightarrow>
     (case subscript message_body ''sessionId'' of
        Raised e \<Rightarrow> Raised e
      | Returned sid \<Rightarrow>
     (case env_url of
        None \<Rightarrow> Raised (KeyError ''APPSYNC_API_URL'')
      | Some url \<Rightarrow>
     (case env_region of
        None \<Rightarrow> Raised (KeyError ''AWS_REGION'')
      | Some rg \<Rightarrow>
          (case slice_error prompt of
             Some e \<Rightarrow> Raised e
           | None \<Rightarrow> Returned (process_stream publish sid url rg (bedrock prompt)))))))"

text \<open>
  \<open>lambda_handler(event, context)\<close> of processing.py.  The environment of the Lambda:
  \<open>json.loads\<close>, the two environment variables, and,
  for the record at each position of the batch, the stream Bedrock returns for a prompt
  and the results of the AppSync calls.
\<close>

record sqs_record =
  messageId :: string
  record_body :: string

record proc_world =
  loads :: "string \<Rightarrow> loaded"
  APPSYNC_API_URL :: "string option"
  AWS_REGION :: "string option"
  bedrock_at :: "nat \<Rightarrow> json \<Rightarrow> pull list"
  publish_at :: "nat \<Rightarrow> nat \<Rightarrow> bool"

text \<open>
  The loop over \<open>event.get("Records", [])\<close>: \<open>i\<close> is the position of the record,
  \<open>failed_message_ids\<close> the list built so far.
\<close>

fun records_loop :: "proc_world \<Rightarrow> nat \<Rightarrow> sqs_record list \<Rightarrow> json list \<Rightarrow> json list" where
  "records_loop w i [] failed_message_ids = failed_message_ids"
| "records_loop w i (r # rest) failed_message_ids =
     (let message_id = messageId r in
      case loads w (record_body r) of
        JSONDecodeError \<Rightarrow> records_loop w (i + 1) rest failed_message_ids
      | LoadsRaised e \<Rightarrow>
          records_loop w (i + 1) rest
            (failed_message_ids @ [JObj [(''itemIdentifier'', JStr message_id)]])
      | Parsed message_body \<Rightarrow>
          (case process_streaming_request (APPSYNC_API_URL w) (AWS_REGION w)
                  (bedrock_at w i) (publish_at w i) message_body of
             Returned res \<Rightarrow>
               if \<not> succeeded res
               then records_loop w (i + 1) rest
                      (failed_message_ids @ [JObj [(''itemIdentifier'', JStr message_id)]])
               else records_loop w (i + 1) rest failed_message_ids
           | Raised e \<Rightarrow>
               records_loop w (i + 1) rest
                 (failed_message_ids @ [JObj [(''itemIdentifier'', JStr message_id)]])))"

definition processing_lambda_handler :: "proc_world \<Rightarrow> sqs_record list option \<Rightarrow> json" where
  "processing_lambda_handler w Records =
     JObj [(''batchItemFailures'',
            JArr (records_loop w 0 (case Records of None \<Rightarrow> [] | Some rs \<Rightarrow> rs) []))]"

text \<open>What happens to one record of the batch, read off the same calls.\<close>

datatype record_outcome =
    DecodeError
  | LoadingRaised exn
  | ProcessedOk
  | ProcessedFailed
  | ProcessingRaised exn

definition outcome_of :: "proc_world \<Rightarrow> nat \<Rightarrow> sqs_record \<Rightarrow> record_outcome" where
  "outcome_of w i r =
     (case loads w (record_body r) of
        JSONDecodeError \<Rightarrow> DecodeError
      | LoadsRaised e \<Rightarrow> LoadingRaised e
      | Parsed message_body \<Rightarrow>
          (case process_streaming_request (APPSYNC_API_URL w) (AWS_REGION w)
                  (bedrock_at w i) (publish_at w i) message_body of
             Returned res \<Rightarrow> if succeeded res then ProcessedOk else ProcessedFailed
           | Raised e \<Rightarrow> ProcessingRaised e))"

fun marked_failed :: "record_outcome \<Rightarrow> bool" where
  "marked_failed DecodeError = False"
| "marked_failed (LoadingRaised e) = True"
| "marked_failed ProcessedOk = False"
| "marked_failed ProcessedFailed = True"
| "marked_failed (ProcessingRaised e) = True"

section \<open>websocket\_api/stream.py\<close>

text \<open>
  The result of one \<open>post_to_connection\<close>: it returns, raises ClientError with code
  GoneException, or raises anything else (\<open>OtherError\<close>, with \<open>str(e)\<close>).  The
  environment gives it as a function of the number of posts made before it in the run.
\<close>

datatype send_result = Ok | Gone | OtherError string

record post_call =
  ConnectionId :: string
  Data :: json

text \<open>The three dicts the handler passes to \<open>json.dumps\<close>.\<close>

definition token_message :: "string \<Rightarrow> nat \<Rightarrow> json" where
  "token_message text n =
     JObj [(''type'', JStr ''token''), (''token'', JStr text), (''sequence'', JNum (int n))]"

definition complete_message :: "nat \<Rightarrow> string \<Rightarrow> json" where
  "complete_message n request_id =
     JObj [(''type'', JStr ''complete''), (''total_tokens'', JNum (int n)),
           (''timestamp'', JStr request_id)]"

definition error_message_of :: "string \<Rightarrow> string \<Rightarrow> json" where
  "error_message_of error_message request_id =
     JObj [(''type'', JStr ''error''), (''message'', JStr error_message),
           (''timestamp'', JStr request_id)]"

text \<open>The prints that report how the run went.\<close>

datatype ws_log =
    InvalidJson
  | ConnectionClosed nat
  | StreamingCompleted nat
  | StreamingError string
  | CouldNotSendError

record ws_state =
  count :: nat
  posts :: "(post_call \<times> send_result) list"
  logged :: "ws_log list"

datatype loop_exit = Exhausted | Break | Exception string

text \<open>
  The \<open>for chunk in response["body"]\<close> loop of the handler.  \<open>token_count\<close> is
  incremented before the post; GoneException breaks out of the loop, any other exception
  leaves it.
\<close>

fun stream_loop :: "(nat \<Rightarrow> send_result) \<Rightarrow> string \<Rightarrow> pull list \<Rightarrow> ws_state \<Rightarrow>
    loop_exit \<times> ws_state" where
  "stream_loop post cid [] s = (Exhausted, s)"
| "stream_loop post cid (Raise e # rest) s = (Exception e, s)"
| "stream_loop post cid (Yield ev # rest) s =
     (case delta_text ev of
        None \<Rightarrow> stream_loop post cid rest s
      | Some text \<Rightarrow>
          (let n = count s + 1;
               call = \<lparr>ConnectionId = cid, Data = token_message text n\<rparr>
           in case post (length (posts s)) of
                Ok \<Rightarrow> stream_loop post cid rest
                        (s\<lparr>count := n, posts := posts s @ [(call, Ok)]\<rparr>)
              | Gone \<Rightarrow>
                  (Break, s\<lparr>count := n, posts := posts s @ [(call, Gone)],
                             logged := logged s @ [ConnectionClosed n]\<rparr>)
              | OtherError e \<Rightarrow>
                  (Exception e, s\<lparr>count := n, posts := posts s @ [(call, OtherError e)]\<rparr>)))"

text \<open>The outer \<open>except Exception\<close> handler: one post of the error, in a bare \<open>try\<close>.\<close>

definition notify_error :: "(nat \<Rightarrow> send_result) \<Rightarrow> string \<Rightarrow> string \<Rightarrow> string \<Rightarrow>
    ws_state \<Rightarrow> ws_state" where
  "notify_error post cid request_id error_message s =
     (let call = \<lparr>ConnectionId = cid, Data = error_message_of error_message request_id\<rparr>;
          r = post (length (posts s))
      in case r of
           Ok \<Rightarrow> s\<lparr>posts := posts s @ [(call, r)],
                    logged := logged s @ [StreamingError error_message]\<rparr>
         | _ \<Rightarrow> s\<lparr>posts := posts s @ [(call, r)],
                   logged := logged s @ [StreamingError error_message, CouldNotSendError]\<rparr>)"

text \<open>
  The \<open>try\<close>/\<open>except Exception\<close> statement of the handler, run on the stream the
  Bedrock invocation gives: the loop, then the completion post (reached after the loop is
  exhausted and after \<open>break\<close> alike).
\<close>

definition stream_response :: "(nat \<Rightarrow> send_result) \<Rightarrow> string \<Rightarrow> string \<Rightarrow> pull list \<Rightarrow>
    ws_state" where
  "stream_response post cid request_id source =
     (case stream_loop post cid source \<lparr>count = 0, posts = [], logged = []\<rparr> of
        (Exception e, s) \<Rightarrow> notify_error post cid request_id e s
      | (_, s) \<Rightarrow>
          (let call = \<lparr>ConnectionId = cid, Data = complete_message (count s) request_id\<rparr>
           in case post (length (posts s)) of
                Ok \<Rightarrow> s\<lparr>posts := posts s @ [(call, Ok)],
                         logged := logged s @ [StreamingCompleted (count s)]\<rparr>
              | Gone \<Rightarrow> s\<lparr>posts := posts s @ [(call, Gone)]\<rparr>
              | OtherError e \<Rightarrow>
                  notify_error post cid request_id e
                    (s\<lparr>posts := posts s @ [(call, OtherError e)]\<rparr>)))"

record ws_event =
  connectionId :: string
  event_body :: "string option"

record ws_result =
  statusCode :: nat
  response_body :: json
  run :: ws_state

text \<open>
  \<open>lambda_handler(event, context)\<close> of stream.py.  \<open>json.loads\<close> is given (the
  default body \<open>"{}"\<close> is the empty dict); \<open>bedrock\<close> gives the stream for a prompt
  and \<open>max_tokens\<close>.  Only JSONDecodeError is caught around the parsing block, so the
  other exceptions of that block, those of \<open>json.loads\<close> among them, leave the handler.
\<close>

definition stream_lambda_handler :: "(string \<Rightarrow> loaded) \<Rightarrow> (json \<Rightarrow> json \<Rightarrow> pull list) \<Rightarrow>
    (nat \<Rightarrow> send_result) \<Rightarrow> ws_event \<Rightarrow> string \<Rightarrow> ws_result py" where
  "stream_lambda_handler json_loads bedrock post event aws_request_id =
     (case (case event_body event of None \<Rightarrow> Parsed (JObj []) | Some b \<Rightarrow> json_loads b) of
        LoadsRaised e \<Rightarrow> Raised e
      | JSONDecodeError \<Rightarrow>
          Returned \<lparr>statusCode = 400,
                    response_body = JObj [(''error'', JStr ''Invalid JSON'')],
                    run = \<lparr>count = 0, posts = [], logged = [InvalidJson]\<rparr>\<rparr>
      | Parsed body \<Rightarrow>
     (case dict_get body ''prompt'' (JStr ''Hello, how are you?'') of
        Raised e \<Rightarrow> Raised e
      | Returned prompt \<Rightarrow>
     (case dict_get body ''options'' (JObj []) of
        Raised e \<Rightarrow> Raised e
      | Returned options \<Rightarrow>
     (case dict_get options ''max_tokens'' (JNum 1000) of
        Raised e \<Rightarrow> Raised e
      | Returned max_tokens \<Rightarrow>
          (case slice_error prompt of
             Some e \<Rightarrow> Raised e
           | None \<Rightarrow>
               Returned
                 \<lparr>statusCode = 200,
                  response_body = JObj [(''message'', JStr ''AI streaming request processed''),
                                        (''requestId'', JStr aws_request_id)],
                  run = stream_response post (connectionId event) aws_request_id
                          (bedrock prompt max_tokens)\<rparr>)))))"

section \<open>appsync/request.py\<close>

text \<open>
  \<open>lambda_handler(event, context)\<close> of request.py.  Given: the event's \<open>"arguments"\<close>
  (\<open>None\<close> when the key is absent), the environment variable, the UUID drawn, the request
  id, the clock (by number of the reading) and \<open>send_message\<close>, which returns a MessageId
  (\<open>Inr\<close>) or raises (\<open>Inl\<close>, with \<open>str(e)\<close>).  The result is the dict returned and
  the message bodies handed to \<open>send_message\<close>.
\<close>

record start_world =
  STREAMING_QUEUE_URL :: "string option"
  uuid4 :: string
  request_id :: string
  utcnow :: "nat \<Rightarrow> string"
  send_message :: "string \<Rightarrow> json \<Rightarrow> string + string"

text \<open>The dict passed to \<open>json.dumps\<close> for the \<open>MessageBody\<close>.\<close>

definition queue_message :: "start_world \<Rightarrow> json \<Rightarrow> json" where
  "queue_message w prompt =
     JObj [(''prompt'', prompt), (''sessionId'', JStr (uuid4 w)),
           (''requestId'', JStr (request_id w)), (''timestamp'', JStr (utcnow w 0))]"

definition request_lambda_handler :: "start_world \<Rightarrow> json option \<Rightarrow> (json \<times> json list) py" where
  "request_lambda_handler w event_arguments =
     (case dict_get (case event_arguments of None \<Rightarrow> JObj [] | Some a \<Rightarrow> a)
             ''prompt'' (JStr ''Hello, how are you?'') of
        Raised e \<Rightarrow> Raised e
      | Returned prompt \<Rightarrow>
     (let session_id = uuid4 w in
      case STREAMING_QUEUE_URL w of
        None \<Rightarrow> Raised (KeyError ''STREAMING_QUEUE_URL'')
      | Some queue_url \<Rightarrow>
          (case slice_error prompt of
             Some e \<Rightarrow> Raised e
           | None \<Rightarrow>
            (case send_message w queue_url (queue_message w prompt) of
               Inr message_id \<Rightarrow>
                 Returned
                   (JObj [(''sessionId'', JStr session_id),
                          (''status'', JStr ''streaming_started''),
                          (''message'', JStr
                             ''AI streaming session initiated. Subscribe to receive real-time tokens.''),
                          (''timestamp'', JStr (utcnow w 1))],
                    [queue_message w prompt])
             | Inl error_msg \<Rightarrow>
                 Returned
                   (JObj [(''sessionId'', JStr session_id),
                          (''status'', JStr ''error''),
                          (''error'', JStr (''Failed to initiate streaming: '' @ error_msg)),
                          (''timestamp'', JStr (utcnow w 1))],
                    [queue_message w prompt])))))"

text \<open>An environment and parsers used at concrete inputs.\<close>

definition example_clock :: "nat \<Rightarrow> string" where
  "example_clock n = ''2025-01-01T00:00:00''"

definition accepting_queue :: "string \<Rightarrow> json \<Rightarrow> string + string" where
  "accepting_queue queue_url message = Inr ''m-1''"

definition example_start_world :: start_world where
  "example_start_world =
     \<lparr>STREAMING_QUEUE_URL = Some ''https://queue'', uuid4 = ''u-1'', request_id = ''req'',
      utcnow = example_clock, send_message = accepting_queue\<rparr>"

definition example_loads :: "string \<Rightarrow> loaded" where
  "example_loads s = (if s = ''{}'' then Parsed (JObj []) else JSONDecodeError)"

definition example_bedrock :: "json \<Rightarrow> json \<Rightarrow> pull list" where
  "example_bedrock prompt max_tokens =
     (if prompt = JStr ''Hello, how are you?'' \<and> max_tokens = JNum 1000
      then [Yield (Chunk (Some ''content_block_delta'') (Some (Some ''Fine'')))]
      else [Raise ''unexpected request''])"

section \<open>What a stream makes the loops do\<close>

text \<open>The texts forwarded from a stream, up to its first exception, and that exception.\<close>

fun texts :: "pull list \<Rightarrow> string list" where
  "texts [] = []"
| "texts (Raise e # rest) = []"
| "texts (Yield ev # rest) =
     (case delta_text ev of None \<Rightarrow> texts rest | Some t \<Rightarrow> t # texts rest)"

fun failure :: "pull list \<Rightarrow> string option" where
  "failure [] = None"
| "failure (Raise e # rest) = Some e"
| "failure (Yield ev # rest) = failure rest"

text \<open>
  The token posts of stream.py for the first \<open>n\<close> texts of \<open>ts\<close>, when the counter
  stands at \<open>c\<close> and \<open>p\<close> posts were made before; and the token calls of processing.py
  for the texts \<open>ts\<close> of a run.
\<close>

definition token_posts :: "(nat \<Rightarrow> send_result) \<Rightarrow> string \<Rightarrow> string list \<Rightarrow> nat \<Rightarrow> nat \<Rightarrow> nat \<Rightarrow>
    (post_call \<times> send_result) list" where
  "token_posts post cid ts c p n =
     map (\<lambda>i. (\<lparr>ConnectionId = cid, Data = token_message (ts ! i) (c + i + 1)\<rparr>, post (p + i)))
         [0..<n]"

definition token_calls :: "(nat \<Rightarrow> bool) \<Rightarrow> json \<Rightarrow> string \<Rightarrow> string \<Rightarrow> string list \<Rightarrow>
    (publish_call \<times> bool) list" where
  "token_calls publish sid url rg ts =
     map (\<lambda>i. (mk_call sid url rg (ts ! i) False (i + 1), publish i)) [0..<length ts]"

text \<open>A \<open>content_block_delta\<close> event whose delta carries the text \<open>t\<close>.\<close>

definition delta :: "string \<Rightarrow> pull" where
  "delta t = Yield (Chunk (Some ''content_block_delta'') (Some (Some t)))"

text \<open>Sinks used at concrete inputs.\<close>

definition all_ok :: "nat \<Rightarrow> send_result" where
  "all_ok i = Ok"

definition all_true :: "nat \<Rightarrow> bool" where
  "all_true i = True"

definition gone_from :: "nat \<Rightarrow> nat \<Rightarrow> send_result" where
  "gone_from k i = (if i < k then Ok else Gone)"

definition error_at :: "nat \<Rightarrow> string \<Rightarrow> nat \<Rightarrow> send_result" where
  "error_at k e i = (if i = k then OtherError e else Ok)"

text \<open>The token posts of stream.py for the first \<open>n\<close> texts of a run, with their results.\<close>

definition first_posts :: "(nat \<Rightarrow> send_result) \<Rightarrow> string \<Rightarrow> string list \<Rightarrow> nat \<Rightarrow>
    (post_call \<times> send_result) list" where
  "first_posts post cid ts n =
     map (\<lambda>i. (\<lparr>ConnectionId = cid, Data = token_message (ts ! i) (i + 1)\<rparr>, post i)) [0..<n]"

text \<open>A batch environment used at a concrete input.\<close>

definition example_batch_loads :: "string \<Rightarrow> loaded" where
  \<open>example_batch_loads s =
     (if s = ''{"prompt": "Hi", "sessionId": "s1"}''
      then Parsed (JObj [(''prompt'', JStr ''Hi''), (''sessionId'', JStr ''s1'')])
      else if s = ''{"prompt": "Fail", "sessionId": "s2"}''
      then Parsed (JObj [(''prompt'', JStr ''Fail''), (''sessionId'', JStr ''s2'')])
      else if s = ''{}'' then Parsed (JObj [])
      else JSONDecodeError)\<close>

definition example_batch_bedrock :: "nat \<Rightarrow> json \<Rightarrow> pull list" where
  "example_batch_bedrock i prompt =
     (if prompt = JStr ''Fail'' then [delta ''x'', Raise ''boom''] else [delta ''ok''])"

definition example_batch_publish :: "nat \<Rightarrow> nat \<Rightarrow> bool" where
  "example_batch_publish i n = True"

definition example_proc_world :: proc_world where
  "example_proc_world =
     \<lparr>loads = example_batch_loads, APPSYNC_API_URL = Some ''https://appsync'',
      AWS_REGION = Some ''eu-west-1'', bedrock_at = example_batch_bedrock,
      publish_at = example_batch_publish\<rparr>"

definition example_batch :: "sqs_record list" where
  \<open>example_batch =
     [\<lparr>messageId = ''m1'', record_body = ''{"prompt": "Hi", "sessionId": "s1"}''\<rparr>,
      \<lparr>messageId = ''m2'', record_body = ''not json''\<rparr>,
      \<lparr>messageId = ''m3'', record_body = ''{"prompt": "Fail", "sessionId": "s2"}''\<rparr>,
      \<lparr>messageId = ''m4'', record_body = ''{}''\<rparr>]\<close>

text \<open>
  A body of 20000 opening brackets, and \<open>json.loads\<close> on the bodies of the batch it is
  used in: the brackets exceed the recursion limit (RecursionError), any other text of
  that batch is not JSON.
\<close>

definition deep_brackets :: string where
  "deep_brackets = replicate 20000 (CHR ''['')"

definition deep_loads :: "string \<Rightarrow> loaded" where
  "deep_loads s = (if s = deep_brackets then LoadsRaised RecursionError else JSONDecodeError)"

definition deep_world :: proc_world where
  "deep_world =
     \<lparr>loads = deep_loads, APPSYNC_API_URL = Some ''https://appsync'',
      AWS_REGION = Some ''eu-west-1'', bedrock_at = example_batch_bedrock,
      publish_at = example_batch_publish\<rparr>"

section \<open>Closed forms of the two loops\<close>

lemma map_upt_shift: "map f [Suc 0..<Suc n] = map (\<lambda>i. f (Suc i)) [0..<n]"
proof -
  have "[Suc 0..<Suc n] = map Suc [0..<n]"
    by (simp only: map_Suc_upt)
  then show ?thesis
    by (simp only: map_map comp_def)
qed

lemma proc_loop_eq:
  "proc_loop publish mk src s =
     (failure src,
      \<lparr>token_count = token_count s + length (texts src),
       calls = calls s @
         map (\<lambda>i. (mk (texts src ! i) False (token_count s + i + 1),
                    publish (length (calls s) + i)))
             [0..<length (texts src)]\<rparr>)"
proof (induction src arbitrary: s)
  case Nil
  show ?case by simp
next
  case (Cons p src)
  show ?case
  proof (cases p)
    case (Raise e)
    then show ?thesis by simp
  next
    case (Yield ev)
    show ?thesis
    proof (cases "delta_text ev")
      case None
      with Yield Cons.IH show ?thesis by simp
    next
      case (Some t)
      with Yield Cons.IH show ?thesis
        by (simp add: Let_def upt_conv_Cons map_upt_shift del: upt_Suc)
    qed
  qed
qed

lemma token_posts_Suc:
  "token_posts post cid (t # ts) c p (Suc n) =
     (\<lparr>ConnectionId = cid, Data = token_message t (Suc c)\<rparr>, post p) #
     token_posts post cid ts (Suc c) (Suc p) n"
  by (simp add: token_posts_def upt_conv_Cons map_upt_shift del: upt_Suc)

lemma stream_loop_all_ok:
  "(\<And>i. i < length (texts src) \<Longrightarrow> post (length ps + i) = Ok) \<Longrightarrow>
   stream_loop post cid src \<lparr>count = c, posts = ps, logged = lg\<rparr> =
     ((case failure src of None \<Rightarrow> Exhausted | Some e \<Rightarrow> Exception e),
      \<lparr>count = c + length (texts src),
       posts = ps @ token_posts post cid (texts src) c (length ps) (length (texts src)),
       logged = lg\<rparr>)"
proof (induction src arbitrary: c ps)
  case Nil
  show ?case by (simp add: token_posts_def)
next
  case (Cons p src)
  show ?case
  proof (cases p)
    case (Raise e)
    then show ?thesis by (simp add: token_posts_def)
  next
    case (Yield ev)
    show ?thesis
    proof (cases "delta_text ev")
      case None
      with Yield Cons show ?thesis by simp
    next
      case (Some t)
      have ok0: "post (length ps) = Ok"
        using Cons.prems [of 0] Yield Some by simp
      have rest: "\<And>i. i < length (texts src) \<Longrightarrow>
          post (length (ps @ [(\<lparr>ConnectionId = cid, Data = token_message t (Suc c)\<rparr>, Ok)]) + i) = Ok"
        using Cons.prems [of "Suc _"] Yield Some by simp
      show ?thesis
        using Yield Some ok0 Cons.IH [OF rest]
        by (simp add: Let_def token_posts_Suc)
    qed
  qed
qed

lemma stream_loop_stops:
  "j < length (texts src) \<Longrightarrow>
   (\<And>i. i < j \<Longrightarrow> post (length ps + i) = Ok) \<Longrightarrow>
   post (length ps + j) \<noteq> Ok \<Longrightarrow>
   stream_loop post cid src \<lparr>count = c, posts = ps, logged = lg\<rparr> =
     ((case post (length ps + j) of OtherError e \<Rightarrow> Exception e | _ \<Rightarrow> Break),
      \<lparr>count = c + j + 1,
       posts = ps @ token_posts post cid (texts src) c (length ps) (j + 1),
       logged = (case post (length ps + j) of
                   OtherError e \<Rightarrow> lg
                 | _ \<Rightarrow> lg @ [ConnectionClosed (c + j + 1)])\<rparr>)"
proof (induction src arbitrary: c ps j)
  case Nil
  then show ?case by simp
next
  case (Cons p src)
  show ?case
  proof (cases p)
    case (Raise e)
    with Cons.prems show ?thesis by simp
  next
    case (Yield ev)
    show ?thesis
    proof (cases "delta_text ev")
      case None
      have tx: "texts (p # src) = texts src"
        and step: "stream_loop post cid (p # src) \<lparr>count = c, posts = ps, logged = lg\<rparr> =
                   stream_loop post cid src \<lparr>count = c, posts = ps, logged = lg\<rparr>"
        using Yield None by simp_all
      from Cons.prems(1) have "j < length (texts src)"
        unfolding tx .
      from Cons.IH [OF this Cons.prems(2) Cons.prems(3)] show ?thesis
        unfolding tx step .
    next
      case (Some t)
      have tx: "texts (p # src) = t # texts src"
        using Yield Some by simp
      show ?thesis
      proof (cases j)
        case 0
        with Cons.prems(3) Yield Some show ?thesis
          by (cases "post (length ps)")
             (simp_all add: Let_def token_posts_def)
      next
        case (Suc j')
        have ok0: "post (length ps) = Ok"
          using Cons.prems(2) [of 0] Suc by simp
        let ?ps1 = "ps @ [(\<lparr>ConnectionId = cid, Data = token_message t (Suc c)\<rparr>, Ok)]"
        have a: "j' < length (texts src)"
          using Cons.prems(1) Suc unfolding tx by simp
        have b: "\<And>i. i < j' \<Longrightarrow> post (length ?ps1 + i) = Ok"
          using Cons.prems(2) [of "Suc _"] Suc by simp
        have c: "post (length ?ps1 + j') \<noteq> Ok"
          using Cons.prems(3) Suc by simp
        have step: "stream_loop post cid (p # src) \<lparr>count = c, posts = ps, logged = lg\<rparr> =
                    stream_loop post cid src \<lparr>count = Suc c, posts = ?ps1, logged = lg\<rparr>"
          using Yield Some ok0 by (simp add: Let_def)
        have idx: "length ?ps1 + j' = length ps + j"
          using Suc by simp
        have ih: "stream_loop post cid src \<lparr>count = Suc c, posts = ?ps1, logged = lg\<rparr> =
            ((case post (length ?ps1 + j') of OtherError e \<Rightarrow> Exception e | _ \<Rightarrow> Break),
             \<lparr>count = Suc c + j' + 1,
              posts = ?ps1 @ token_posts post cid (texts src) (Suc c) (length ?ps1) (j' + 1),
              logged = (case post (length ?ps1 + j') of
                          OtherError e \<Rightarrow> lg
                        | _ \<Rightarrow> lg @ [ConnectionClosed (Suc c + j' + 1)])\<rparr>)"
          by (rule Cons.IH [OF a b c])
        have cnt: "Suc c + j' + 1 = c + j + 1" and j1: "j + 1 = Suc (j' + 1)"
          using Suc by simp_all
        show ?thesis
          unfolding step tx ih idx cnt j1 token_posts_Suc ok0
          by simp
      qed
    qed
  qed
qed

lemma process_stream_eq:
  "process_stream publish sid url rg src =
     (case failure src of
        None \<Rightarrow>
          \<lparr>succeeded = True, tokens = length (texts src),
           published = token_calls publish sid url rg (texts src) @
             [(mk_call sid url rg [] True (length (texts src) + 1),
               publish (length (texts src)))],
           printed = [StreamCompleted (length (texts src))]\<rparr>
      | Some e \<Rightarrow>
          \<lparr>succeeded = False, tokens = length (texts src),
           published = token_calls publish sid url rg (texts src) @
             [(mk_call sid url rg (''Error: '' @ e) True 999, publish (length (texts src)))],
           printed = [StreamError e]\<rparr>)"
  by (simp add: process_stream_def proc_loop_eq token_calls_def split: option.split)

lemma stream_response_all_ok:
  assumes "\<And>i. i < length (texts src) \<Longrightarrow> post i = Ok"
  shows "stream_response post cid rid src =
     (case failure src of
        Some e \<Rightarrow>
          notify_error post cid rid e
            \<lparr>count = length (texts src),
             posts = token_posts post cid (texts src) 0 0 (length (texts src)),
             logged = []\<rparr>
      | None \<Rightarrow>
          (case post (length (texts src)) of
             Ok \<Rightarrow>
               \<lparr>count = length (texts src),
                posts = token_posts post cid (texts src) 0 0 (length (texts src)) @
                  [(\<lparr>ConnectionId = cid,
                     Data = complete_message (length (texts src)) rid\<rparr>, Ok)],
                logged = [StreamingCompleted (length (texts src))]\<rparr>
           | Gone \<Rightarrow>
               \<lparr>count = length (texts src),
                posts = token_posts post cid (texts src) 0 0 (length (texts src)) @
                  [(\<lparr>ConnectionId = cid,
                     Data = complete_message (length (texts src)) rid\<rparr>, Gone)],
                logged = []\<rparr>
           | OtherError e \<Rightarrow>
               notify_error post cid rid e
                 \<lparr>count = length (texts src),
                  posts = token_posts post cid (texts src) 0 0 (length (texts src)) @
                    [(\<lparr>ConnectionId = cid,
                       Data = complete_message (length (texts src)) rid\<rparr>, OtherError e)],
                  logged = []\<rparr>))"
proof -
  have loop: "stream_loop post cid src \<lparr>count = 0, posts = [], logged = []\<rparr> =
     ((case failure src of None \<Rightarrow> Exhausted | Some e \<Rightarrow> Exception e),
      \<lparr>count = length (texts src),
       posts = token_posts post cid (texts src) 0 0 (length (texts src)),
       logged = []\<rparr>)"
    using stream_loop_all_ok [where ps = "[]" and post = post and src = src and c = 0
        and cid = cid and lg = "[]"] assms
    by simp
  have len: "length (token_posts post cid ts c p n) = n" for ts c p n
    by (simp add: token_posts_def)
  show ?thesis
    unfolding stream_response_def loop
    by (simp add: len split: option.split send_result.split)
qed

lemma stream_response_stops:
  assumes "j < length (texts src)" and "\<And>i. i < j \<Longrightarrow> post i = Ok" and "post j \<noteq> Ok"
  shows "stream_response post cid rid src =
     (case post j of
        OtherError e \<Rightarrow>
          notify_error post cid rid e
            \<lparr>count = j + 1, posts = token_posts post cid (texts src) 0 0 (j + 1),
             logged = []\<rparr>
      | _ \<Rightarrow>
          (case post (j + 1) of
             Ok \<Rightarrow>
               \<lparr>count = j + 1,
                posts = token_posts post cid (texts src) 0 0 (j + 1) @
                  [(\<lparr>ConnectionId = cid, Data = complete_message (j + 1) rid\<rparr>, Ok)],
                logged = [ConnectionClosed (j + 1), StreamingCompleted (j + 1)]\<rparr>
           | Gone \<Rightarrow>
               \<lparr>count = j + 1,
                posts = token_posts post cid (texts src) 0 0 (j + 1) @
                  [(\<lparr>ConnectionId = cid, Data = complete_message (j + 1) rid\<rparr>, Gone)],
                logged = [ConnectionClosed (j + 1)]\<rparr>
           | OtherError e \<Rightarrow>
               notify_error post cid rid e
                 \<lparr>count = j + 1,
                  posts = token_posts post cid (texts src) 0 0 (j + 1) @
                    [(\<lparr>ConnectionId = cid, Data = complete_message (j + 1) rid\<rparr>,
                      OtherError e)],
                  logged = [ConnectionClosed (j + 1)]\<rparr>))"
proof -
  have loop: "stream_loop post cid src \<lparr>count = 0, posts = [], logged = []\<rparr> =
     ((case post j of OtherError e \<Rightarrow> Exception e | _ \<Rightarrow> Break),
      \<lparr>count = j + 1,
       posts = token_posts post cid (texts src) 0 0 (j + 1),
       logged = (case post j of OtherError e \<Rightarrow> [] | _ \<Rightarrow> [ConnectionClosed (j + 1)])\<rparr>)"
    using stream_loop_stops [where ps = "[]" and post = post and src = src and c = 0
        and cid = cid and lg = "[]" and j = j] assms
    by (simp split: send_result.split)
  have len: "length (token_posts post cid ts c p n) = n" for ts c p n
    by (simp add: token_posts_def)
  show ?thesis
    unfolding stream_response_def loop
    using assms(3) by (cases "post j") (simp_all add: len split: send_result.split)
qed

section \<open>Empty chunks\<close>

lemma proc_loop_skip:
  "delta_text ev = None \<Longrightarrow>
   proc_loop publish mk (xs @ Yield ev # ys) s = proc_loop publish mk (xs @ ys) s"
proof (induction xs arbitrary: s)
  case Nil
  then show ?case by simp
next
  case (Cons p xs)
  then show ?case
    by (cases p) (simp_all add: Let_def split: option.split)
qed

lemma stream_loop_skip:
  "delta_text ev = None \<Longrightarrow>
   stream_loop post cid (xs @ Yield ev # ys) s = stream_loop post cid (xs @ ys) s"
proof (induction xs arbitrary: s)
  case Nil
  then show ?case by simp
next
  case (Cons p xs)
  then show ?case
    by (cases p) (simp_all add: Let_def split: option.split send_result.split)
qed

lemma delta_text_empty: "chunk_text d = [] \<Longrightarrow> delta_text (Chunk ty d) = None"
  by simp

text \<open>
  C6.  An event whose text is empty (no delta, no text, or the empty string) is skipped by
  both handlers: the run on a stream with such an event at any position is the run on the
  stream without it, so the event gets no sequence number and causes no call of the sink.
\<close>

theorem empty_chunk_is_skipped:
  assumes "chunk_text d = []"
  shows "process_stream publish sid url rg (xs @ Yield (Chunk ty d) # ys) =
           process_stream publish sid url rg (xs @ ys) \<and>
         stream_response post cid rid (xs @ Yield (Chunk ty d) # ys) =
           stream_response post cid rid (xs @ ys)"
  using assms
  by (simp only: process_stream_def stream_response_def
        proc_loop_skip [OF delta_text_empty] stream_loop_skip [OF delta_text_empty])

theorem empty_chunk_is_skipped_witness:
  "chunk_text (Some (Some [])) = [] \<and>
   process_stream all_true (JStr ''s1'') ''url'' ''eu''
       ([delta ''A''] @ Yield (Chunk (Some ''content_block_delta'') (Some (Some []))) # [delta ''B'']) =
     process_stream all_true (JStr ''s1'') ''url'' ''eu'' ([delta ''A''] @ [delta ''B'']) \<and>
   stream_response all_ok ''c1'' ''req''
       ([delta ''A''] @ Yield (Chunk (Some ''content_block_delta'') (Some (Some []))) # [delta ''B'']) =
     stream_response all_ok ''c1'' ''req'' ([delta ''A''] @ [delta ''B''])"
  using empty_chunk_is_skipped [of "Some (Some [])" all_true "JStr ''s1''" "''url''" "''eu''"
      "[delta ''A'']" "Some ''content_block_delta''" "[delta ''B'']" all_ok "''c1''" "''req''"]
  by simp

section \<open>The batch handler of processing.py\<close>

lemma records_loop_eq:
  "records_loop w i rs acc =
     acc @ map (\<lambda>(k, r). JObj [(''itemIdentifier'', JStr (messageId r))])
               (filter (\<lambda>(k, r). marked_failed (outcome_of w k r)) (enumerate i rs))"
proof (induction rs arbitrary: i acc)
  case Nil
  show ?case by simp
next
  case (Cons r rs)
  show ?case
    by (simp add: Cons.IH outcome_of_def Let_def split: loaded.split py.split)
qed

text \<open>
  The \<open>batchItemFailures\<close> returned for a batch hold one entry, in the order of the
  batch, for each record whose processing returned False or raised and for each record on
  whose body \<open>json.loads\<close> raised anything but JSONDecodeError, and nothing else.  A
  record on whose body \<open>json.loads\<close> raised JSONDecodeError gets no entry.
\<close>

lemma batch_item_failures:
  "processing_lambda_handler w Records =
     JObj [(''batchItemFailures'',
            JArr (map (\<lambda>(k, r). JObj [(''itemIdentifier'', JStr (messageId r))])
                   (filter (\<lambda>(k, r). marked_failed (outcome_of w k r))
                      (enumerate 0 (case Records of None \<Rightarrow> [] | Some rs \<Rightarrow> rs)))))]"
  by (simp add: processing_lambda_handler_def records_loop_eq)

text \<open>
  A batch of four records: the first is processed, the second is not JSON, the stream of
  the third raises (the function returns False) and the fourth has no prompt (the
  function raises KeyError).  The third and the fourth are reported.
\<close>

lemma batch_of_four:
  "processing_lambda_handler example_proc_world (Some example_batch) =
     JObj [(''batchItemFailures'',
            JArr [JObj [(''itemIdentifier'', JStr ''m3'')],
                  JObj [(''itemIdentifier'', JStr ''m4'')]])]"
  using batch_item_failures [of example_proc_world "Some example_batch"]
  by (simp add: example_batch_def example_proc_world_def example_batch_loads_def
        example_batch_bedrock_def example_batch_publish_def outcome_of_def
        process_streaming_request_def process_stream_def delta_def enumerate_eq_zip upt_rec)

lemma not_json_is_not_deep: "''not json'' \<noteq> deep_brackets"
proof
  assume "''not json'' = deep_brackets"
  then have "length ''not json'' = length deep_brackets"
    by (rule arg_cong)
  then show False
    by (simp add: deep_brackets_def)
qed

text \<open>
  C8.  A body that is not parseable JSON can be marked as failed: on a batch whose first
  body is 20000 opening brackets, on which \<open>json.loads\<close> raises RecursionError, and whose
  second body is the text \<open>not json\<close>, on which it raises JSONDecodeError, the first
  message is in \<open>batchItemFailures\<close> and the second is not.
\<close>

theorem deep_nesting_marked_failed:
  "processing_lambda_handler deep_world
       (Some [\<lparr>messageId = ''m1'', record_body = deep_brackets\<rparr>,
              \<lparr>messageId = ''m2'', record_body = ''not json''\<rparr>]) =
     JObj [(''batchItemFailures'', JArr [JObj [(''itemIdentifier'', JStr ''m1'')]])]"
  by (simp add: processing_lambda_handler_def deep_world_def deep_loads_def
        not_json_is_not_deep Let_def)

section \<open>Runs without a failure\<close>

lemma token_posts_first: "token_posts post cid ts 0 0 n = first_posts post cid ts n"
  by (simp add: token_posts_def first_posts_def)

lemma texts_map_delta: "\<forall>t\<in>set ts. t \<noteq> [] \<Longrightarrow> texts (map delta ts) = ts"
  by (induction ts) (simp_all add: delta_def)

lemma failure_map_delta: "failure (map delta ts) = None"
  by (induction ts) (simp_all add: delta_def)

text \<open>
  C1 (amended).  On a stream of \<open>N\<close> non-empty text deltas, with no failure of the stream
  or of the sink, processing.py publishes the \<open>N\<close> texts in order with
  \<open>is_complete = False\<close> and sequence \<open>1..N\<close>, then one call with the empty token,
  \<open>is_complete = True\<close> and sequence \<open>N + 1\<close>, prints the total \<open>N\<close> and returns
  True.  stream.py posts the \<open>N\<close> token messages with sequence \<open>1..N\<close> in order, then
  one message of type \<open>complete\<close> that carries \<open>total_tokens = N\<close>, and prints the
  total \<open>N\<close>.
\<close>

theorem relay_completes:
  assumes "\<forall>t\<in>set ts. t \<noteq> []"
    and "\<forall>i\<le>length ts. publish i"
    and "\<forall>i\<le>length ts. post i = Ok"
  shows "process_stream publish sid url rg (map delta ts) =
           \<lparr>succeeded = True, tokens = length ts,
            published =
              map (\<lambda>i. (mk_call sid url rg (ts ! i) False (i + 1), True)) [0..<length ts] @
              [(mk_call sid url rg [] True (length ts + 1), True)],
            printed = [StreamCompleted (length ts)]\<rparr> \<and>
         stream_response post cid rid (map delta ts) =
           \<lparr>count = length ts,
            posts =
              map (\<lambda>i. (\<lparr>ConnectionId = cid, Data = token_message (ts ! i) (i + 1)\<rparr>, Ok))
                [0..<length ts] @
              [(\<lparr>ConnectionId = cid, Data = complete_message (length ts) rid\<rparr>, Ok)],
            logged = [StreamingCompleted (length ts)]\<rparr>"
proof
  have tx: "texts (map delta ts) = ts"
    using assms(1) by (rule texts_map_delta)
  have pub: "publish (length ts) = True" and pubs: "\<And>i. i < length ts \<Longrightarrow> publish i = True"
    using assms(2) by simp_all
  show "process_stream publish sid url rg (map delta ts) =
           \<lparr>succeeded = True, tokens = length ts,
            published =
              map (\<lambda>i. (mk_call sid url rg (ts ! i) False (i + 1), True)) [0..<length ts] @
              [(mk_call sid url rg [] True (length ts + 1), True)],
            printed = [StreamCompleted (length ts)]\<rparr>"
    unfolding process_stream_eq tx failure_map_delta token_calls_def
    by (simp add: pub pubs)
  have ok: "\<And>i. i < length (texts (map delta ts)) \<Longrightarrow> post i = Ok"
    and okN: "post (length ts) = Ok" and oks: "\<And>i. i < length ts \<Longrightarrow> post i = Ok"
    using assms(3) tx by simp_all
  show "stream_response post cid rid (map delta ts) =
           \<lparr>count = length ts,
            posts =
              map (\<lambda>i. (\<lparr>ConnectionId = cid, Data = token_message (ts ! i) (i + 1)\<rparr>, Ok))
                [0..<length ts] @
              [(\<lparr>ConnectionId = cid, Data = complete_message (length ts) rid\<rparr>, Ok)],
            logged = [StreamingCompleted (length ts)]\<rparr>"
    by (subst stream_response_all_ok)
       (simp_all add: tx failure_map_delta token_posts_def okN oks)
qed

theorem relay_completes_witness:
  "process_stream all_true (JStr ''s1'') ''url'' ''eu'' (map delta [''Hel'', ''lo'', '' world'']) =
     \<lparr>succeeded = True, tokens = 3,
      published =
        [(mk_call (JStr ''s1'') ''url'' ''eu'' ''Hel'' False 1, True),
         (mk_call (JStr ''s1'') ''url'' ''eu'' ''lo'' False 2, True),
         (mk_call (JStr ''s1'') ''url'' ''eu'' '' world'' False 3, True),
         (mk_call (JStr ''s1'') ''url'' ''eu'' [] True 4, True)],
      printed = [StreamCompleted 3]\<rparr> \<and>
   stream_response all_ok ''c1'' ''req'' (map delta [''Hel'', ''lo'', '' world'']) =
     \<lparr>count = 3,
      posts =
        [(\<lparr>ConnectionId = ''c1'', Data = token_message ''Hel'' 1\<rparr>, Ok),
         (\<lparr>ConnectionId = ''c1'', Data = token_message ''lo'' 2\<rparr>, Ok),
         (\<lparr>ConnectionId = ''c1'', Data = token_message '' world'' 3\<rparr>, Ok),
         (\<lparr>ConnectionId = ''c1'', Data = complete_message 3 ''req''\<rparr>, Ok)],
      logged = [StreamingCompleted 3]\<rparr>"
  using relay_completes [of "[''Hel'', ''lo'', '' world'']" all_true all_ok
      "JStr ''s1''" "''url''" "''eu''" "''c1''" "''req''"]
  by (simp add: all_true_def all_ok_def upt_rec eval_nat_numeral)

text \<open>
  The completion message of stream.py has neither a \<open>sequence\<close> nor a \<open>token\<close> field:
  on the one-chunk stream \<open>["A"]\<close> it is \<open>{type: complete, total_tokens: 1, timestamp}\<close>.
\<close>

theorem completion_message_has_no_sequence:
  "Data (fst (last (posts (stream_response all_ok ''c1'' ''req'' [delta ''A''])))) =
     JObj [(''type'', JStr ''complete''), (''total_tokens'', JNum 1), (''timestamp'', JStr ''req'')] \<and>
   subscript (Data (fst (last (posts (stream_response all_ok ''c1'' ''req'' [delta ''A'']))))) ''sequence'' =
     Raised (KeyError ''sequence'') \<and>
   subscript (Data (fst (last (posts (stream_response all_ok ''c1'' ''req'' [delta ''A'']))))) ''token'' =
     Raised (KeyError ''token'')"
  by (simp add: stream_response_def delta_def all_ok_def complete_message_def Let_def)

section \<open>Runs in which the sink fails\<close>

text \<open>
  C2 (amended).  When the post of fragment \<open>k = j + 1\<close> is answered GoneException (the
  posts before it succeeded), stream.py prints that the connection closed with \<open>k\<close>
  tokens sent, pulls no further chunk and posts no further token; the loop is left by
  \<open>break\<close>, so the completion message with \<open>total_tokens = k\<close> is still posted.  A
  GoneException there ends the run silently, and only another exception there leads to
  the one post of the error message.
\<close>

theorem gone_stops_tokens:
  assumes "j < length (texts source)"
    and "\<forall>i<j. post i = Ok"
    and "post j = Gone"
  shows "stream_response post cid rid source =
     (case post (j + 1) of
        Ok \<Rightarrow>
          \<lparr>count = j + 1,
           posts = first_posts post cid (texts source) (j + 1) @
             [(\<lparr>ConnectionId = cid, Data = complete_message (j + 1) rid\<rparr>, Ok)],
           logged = [ConnectionClosed (j + 1), StreamingCompleted (j + 1)]\<rparr>
      | Gone \<Rightarrow>
          \<lparr>count = j + 1,
           posts = first_posts post cid (texts source) (j + 1) @
             [(\<lparr>ConnectionId = cid, Data = complete_message (j + 1) rid\<rparr>, Gone)],
           logged = [ConnectionClosed (j + 1)]\<rparr>
      | OtherError e \<Rightarrow>
          \<lparr>count = j + 1,
           posts = first_posts post cid (texts source) (j + 1) @
             [(\<lparr>ConnectionId = cid, Data = complete_message (j + 1) rid\<rparr>, OtherError e),
              (\<lparr>ConnectionId = cid, Data = error_message_of e rid\<rparr>, post (j + 2))],
           logged = [ConnectionClosed (j + 1), StreamingError e] @
             (if post (j + 2) = Ok then [] else [CouldNotSendError])\<rparr>)"
proof -
  have len: "length (first_posts post cid ts n) = n" for ts n
    by (simp add: first_posts_def)
  show ?thesis
    by (subst stream_response_stops [where j = j])
       (use assms in \<open>simp_all add: token_posts_first notify_error_def len Let_def
          split: send_result.split\<close>)
qed

theorem gone_stops_tokens_witness:
  "stream_response (gone_from 1) ''c1'' ''req'' (map delta [''A'', ''B'', ''C'']) =
     \<lparr>count = 2,
      posts =
        [(\<lparr>ConnectionId = ''c1'', Data = token_message ''A'' 1\<rparr>, Ok),
         (\<lparr>ConnectionId = ''c1'', Data = token_message ''B'' 2\<rparr>, Gone),
         (\<lparr>ConnectionId = ''c1'', Data = complete_message 2 ''req''\<rparr>, Gone)],
      logged = [ConnectionClosed 2]\<rparr>"
  using gone_stops_tokens [of 1 "map delta [''A'', ''B'', ''C'']" "gone_from 1" "''c1''" "''req''"]
  by (simp add: gone_from_def delta_def first_posts_def upt_rec eval_nat_numeral)

text \<open>
  On the stream \<open>["A"]\<close> with a sink that is gone from the first post on, two posts are
  made: the token and then the completion message.
\<close>

theorem completion_posted_after_gone:
  "posts (stream_response (gone_from 0) ''c1'' ''req'' [delta ''A'']) =
     [(\<lparr>ConnectionId = ''c1'', Data = token_message ''A'' 1\<rparr>, Gone),
      (\<lparr>ConnectionId = ''c1'', Data = complete_message 1 ''req''\<rparr>, Gone)]"
  by (simp add: stream_response_def delta_def gone_from_def Let_def)

text \<open>
  C3 (amended).  In stream.py, when the post of fragment \<open>k = j + 1\<close> raises anything
  but GoneException (the posts before it succeeded), the loop is left with the counter at
  \<open>k\<close>, no further chunk is pulled and neither a token nor the completion message is
  posted; the error is printed and exactly one more post is made, the error message with
  \<open>str(e)\<close>, whose own failure is only printed.
\<close>

theorem send_error_aborts_run:
  assumes "j < length (texts source)"
    and "\<forall>i<j. post i = Ok"
    and "post j = OtherError e"
  shows "stream_response post cid rid source =
     \<lparr>count = j + 1,
      posts = first_posts post cid (texts source) (j + 1) @
        [(\<lparr>ConnectionId = cid, Data = error_message_of e rid\<rparr>, post (j + 1))],
      logged = StreamingError e # (if post (j + 1) = Ok then [] else [CouldNotSendError])\<rparr>"
proof -
  have len: "length (first_posts post cid ts n) = n" for ts n
    by (simp add: first_posts_def)
  show ?thesis
    by (subst stream_response_stops [where j = j])
       (use assms in \<open>simp_all add: token_posts_first notify_error_def len Let_def
          split: send_result.split\<close>)
qed

theorem send_error_aborts_run_witness:
  "stream_response (error_at 1 ''boom'') ''c1'' ''req'' (map delta [''A'', ''B'', ''C'']) =
     \<lparr>count = 2,
      posts =
        [(\<lparr>ConnectionId = ''c1'', Data = token_message ''A'' 1\<rparr>, Ok),
         (\<lparr>ConnectionId = ''c1'', Data = token_message ''B'' 2\<rparr>, OtherError ''boom''),
         (\<lparr>ConnectionId = ''c1'', Data = error_message_of ''boom'' ''req''\<rparr>, Ok)],
      logged = [StreamingError ''boom'']\<rparr>"
  using send_error_aborts_run [of 1 "map delta [''A'', ''B'', ''C'']" "error_at 1 ''boom''"
      "''boom''" "''c1''" "''req''"]
  by (simp add: error_at_def delta_def first_posts_def upt_rec eval_nat_numeral)

text \<open>
  On the stream \<open>["A"]\<close> with a sink whose first post fails with another error, the
  counter stands at 1 and a second post is made: the error message.
\<close>

theorem error_posted_after_send_error:
  "posts (stream_response (error_at 0 ''boom'') ''c1'' ''req'' [delta ''A'']) =
     [(\<lparr>ConnectionId = ''c1'', Data = token_message ''A'' 1\<rparr>, OtherError ''boom''),
      (\<lparr>ConnectionId = ''c1'', Data = error_message_of ''boom'' ''req''\<rparr>, Ok)] \<and>
   count (stream_response (error_at 0 ''boom'') ''c1'' ''req'' [delta ''A'']) = 1"
  by (simp add: stream_response_def notify_error_def delta_def error_at_def Let_def)

text \<open>
  processing.py never reads the result of a token publish: the calls it makes, the
  count and the value returned do not depend on the results.
\<close>

lemma publish_result_ignored:
  "map fst (published (process_stream publish sid url rg source)) =
     map fst (published (process_stream publish' sid url rg source)) \<and>
   succeeded (process_stream publish sid url rg source) =
     succeeded (process_stream publish' sid url rg source) \<and>
   tokens (process_stream publish sid url rg source) =
     tokens (process_stream publish' sid url rg source)"
  by (simp add: process_stream_eq token_calls_def comp_def split: option.split)

text \<open>
  C7 (amended).  After a stream that ended naturally with every token delivered:
  processing.py ignores the result of the completion publish and returns True;
  stream.py swallows a GoneException of the completion post (no error is printed or
  posted, and the line reporting completion is not printed either), while any other
  exception of that post is raised into the handler's \<open>except\<close>, which prints a
  streaming error and posts the error message.
\<close>

theorem completion_failure_handling:
  assumes "failure source = None"
    and "\<forall>i<length (texts source). post i = Ok"
  shows "succeeded (process_stream publish sid url rg source) \<and>
     printed (process_stream publish sid url rg source) =
       [StreamCompleted (length (texts source))] \<and>
     stream_response post cid rid source =
     (case post (length (texts source)) of
        Ok \<Rightarrow>
          \<lparr>count = length (texts source),
           posts = first_posts post cid (texts source) (length (texts source)) @
             [(\<lparr>ConnectionId = cid, Data = complete_message (length (texts source)) rid\<rparr>,
               Ok)],
           logged = [StreamingCompleted (length (texts source))]\<rparr>
      | Gone \<Rightarrow>
          \<lparr>count = length (texts source),
           posts = first_posts post cid (texts source) (length (texts source)) @
             [(\<lparr>ConnectionId = cid, Data = complete_message (length (texts source)) rid\<rparr>,
               Gone)],
           logged = []\<rparr>
      | OtherError e \<Rightarrow>
          \<lparr>count = length (texts source),
           posts = first_posts post cid (texts source) (length (texts source)) @
             [(\<lparr>ConnectionId = cid, Data = complete_message (length (texts source)) rid\<rparr>,
               OtherError e),
              (\<lparr>ConnectionId = cid, Data = error_message_of e rid\<rparr>,
               post (length (texts source) + 1))],
           logged = StreamingError e #
             (if post (length (texts source) + 1) = Ok then [] else [CouldNotSendError])\<rparr>)"
proof -
  have len: "length (first_posts post cid ts n) = n" for ts n
    by (simp add: first_posts_def)
  have proc: "succeeded (process_stream publish sid url rg source) \<and>
     printed (process_stream publish sid url rg source) =
       [StreamCompleted (length (texts source))]"
    using assms(1) by (simp add: process_stream_eq)
  have ws: "stream_response post cid rid source =
     (case post (length (texts source)) of
        Ok \<Rightarrow>
          \<lparr>count = length (texts source),
           posts = first_posts post cid (texts source) (length (texts source)) @
             [(\<lparr>ConnectionId = cid, Data = complete_message (length (texts source)) rid\<rparr>,
               Ok)],
           logged = [StreamingCompleted (length (texts source))]\<rparr>
      | Gone \<Rightarrow>
          \<lparr>count = length (texts source),
           posts = first_posts post cid (texts source) (length (texts source)) @
             [(\<lparr>ConnectionId = cid, Data = complete_message (length (texts source)) rid\<rparr>,
               Gone)],
           logged = []\<rparr>
      | OtherError e \<Rightarrow>
          \<lparr>count = length (texts source),
           posts = first_posts post cid (texts source) (length (texts source)) @
             [(\<lparr>ConnectionId = cid, Data = complete_message (length (texts source)) rid\<rparr>,
               OtherError e),
              (\<lparr>ConnectionId = cid, Data = error_message_of e rid\<rparr>,
               post (length (texts source) + 1))],
           logged = StreamingError e #
             (if post (length (texts source) + 1) = Ok then [] else [CouldNotSendError])\<rparr>)"
    by (subst stream_response_all_ok)
       (use assms in \<open>simp_all add: token_posts_first notify_error_def len Let_def
          split: send_result.split\<close>)
  from proc ws show ?thesis by (simp only: simp_thms)
qed

theorem completion_failure_handling_witness:
  "succeeded (process_stream all_true (JStr ''s1'') ''url'' ''eu'' (map delta [''A'', ''B''])) \<and>
   printed (process_stream all_true (JStr ''s1'') ''url'' ''eu'' (map delta [''A'', ''B''])) =
     [StreamCompleted 2] \<and>
   stream_response (gone_from 2) ''c1'' ''req'' (map delta [''A'', ''B'']) =
     \<lparr>count = 2,
      posts =
        [(\<lparr>ConnectionId = ''c1'', Data = token_message ''A'' 1\<rparr>, Ok),
         (\<lparr>ConnectionId = ''c1'', Data = token_message ''B'' 2\<rparr>, Ok),
         (\<lparr>ConnectionId = ''c1'', Data = complete_message 2 ''req''\<rparr>, Gone)],
      logged = []\<rparr>"
  using completion_failure_handling [of "map delta [''A'', ''B'']" "gone_from 2" all_true
      "JStr ''s1''" "''url''" "''eu''" "''c1''" "''req''"]
  by (simp add: gone_from_def delta_def first_posts_def upt_rec eval_nat_numeral)

text \<open>
  On the stream \<open>["A"]\<close> with a sink whose second post (the completion message) fails
  with another error, stream.py prints a streaming error and posts the error message.
\<close>

theorem completion_error_is_raised:
  "logged (stream_response (error_at 1 ''boom'') ''c1'' ''req'' [delta ''A'']) =
     [StreamingError ''boom''] \<and>
   posts (stream_response (error_at 1 ''boom'') ''c1'' ''req'' [delta ''A'']) =
     [(\<lparr>ConnectionId = ''c1'', Data = token_message ''A'' 1\<rparr>, Ok),
      (\<lparr>ConnectionId = ''c1'', Data = complete_message 1 ''req''\<rparr>, OtherError ''boom''),
      (\<lparr>ConnectionId = ''c1'', Data = error_message_of ''boom'' ''req''\<rparr>, Ok)]"
  by (simp add: stream_response_def notify_error_def delta_def error_at_def Let_def)

section \<open>The error fragment of processing.py\<close>

lemma texts_replicate_delta:
  "t \<noteq> [] \<Longrightarrow> texts (replicate n (delta t) @ rest) = replicate n t @ texts rest"
  by (induction n) (simp_all add: delta_def)

lemma failure_replicate_delta:
  "failure (replicate n (delta t) @ rest) = failure rest"
  by (induction n) (simp_all add: delta_def)

lemma published_failed_run:
  "t \<noteq> [] \<Longrightarrow>
   published (process_stream publish sid url rg (replicate n (delta t) @ [Raise e])) =
     map (\<lambda>i. (mk_call sid url rg t False (i + 1), publish i)) [0..<n] @
     [(mk_call sid url rg (''Error: '' @ e) True 999, publish n)]"
  by (simp add: process_stream_eq texts_replicate_delta failure_replicate_delta token_calls_def)

text \<open>
  The rest of C4 holds on every stream: when the stream raises after \<open>k\<close> texts were
  published, exactly one more call is made, with \<open>is_complete = True\<close>, the token
  \<open>"Error: " + str(e)\<close> and sequence 999; its result is not read, the counter stands at
  \<open>k\<close> and the function returns False.
\<close>

lemma backend_failure_run:
  "failure source = Some e \<Longrightarrow>
   process_stream publish sid url rg source =
     \<lparr>succeeded = False, tokens = length (texts source),
      published = token_calls publish sid url rg (texts source) @
        [(mk_call sid url rg (''Error: '' @ e) True 999, publish (length (texts source)))],
      printed = [StreamError e]\<rparr>"
  by (simp add: process_stream_eq)

text \<open>
  C4.  The sequence number of the error fragment is the constant 999, which the 999th
  token of a run also gets: on a stream that yields 999 texts and then raises, the 999th
  call (a token, \<open>is_complete = False\<close>) and the 1000th call (the error fragment) both
  carry sequence 999.
\<close>

theorem error_sequence_collides:
  "fst (published (process_stream all_true (JStr ''s1'') ''url'' ''eu''
          (replicate 999 (delta ''x'') @ [Raise ''boom''])) ! 998) =
     mk_call (JStr ''s1'') ''url'' ''eu'' ''x'' False 999 \<and>
   fst (published (process_stream all_true (JStr ''s1'') ''url'' ''eu''
          (replicate 999 (delta ''x'') @ [Raise ''boom''])) ! 999) =
     mk_call (JStr ''s1'') ''url'' ''eu'' ''Error: boom'' True 999"
  by (simp add: published_failed_run nth_append)

text \<open>
  C5.  On a stream that yields 1000 texts and then raises, with every publish
  succeeding, the sequence numbers of the delivered fragments are \<open>1..1000\<close> followed by
  999: they are not strictly increasing.
\<close>

theorem delivered_sequence_not_increasing:
  "\<not> sorted_wrt (<)
       (map (sequence \<circ> fst)
          (filter snd
             (published (process_stream all_true (JStr ''s1'') ''url'' ''eu''
                (replicate 1000 (delta ''x'') @ [Raise ''boom''])))))"
proof -
  have "map (sequence \<circ> fst)
          (filter snd
             (published (process_stream all_true (JStr ''s1'') ''url'' ''eu''
                (replicate 1000 (delta ''x'') @ [Raise ''boom''])))) =
        map Suc [0..<1000] @ [999]"
    by (simp add: published_failed_run all_true_def mk_call_def comp_def)
  moreover have "Suc 999 \<in> set (map Suc [0..<1000])"
    by simp
  ultimately show ?thesis
    by (auto simp add: sorted_wrt_append simp del: map_Suc_upt)
qed

text \<open>
  Apart from that constant the invariant holds in processing.py: every run ends with
  exactly one call with \<open>is_complete = True\<close>, which is the last one, and the sequence
  numbers of the delivered fragments increase strictly on every run that ends naturally
  and on every failed run of fewer than 999 tokens.
\<close>

lemma one_terminal_call_last:
  "map (is_complete \<circ> fst) (published (process_stream publish sid url rg source)) =
     replicate (length (texts source)) False @ [True]"
  by (simp add: process_stream_eq token_calls_def mk_call_def comp_def map_replicate_const
        split: option.split)

lemma call_sequences:
  "map (sequence \<circ> fst) (published (process_stream publish sid url rg source)) =
     [1..<Suc (length (texts source))] @
     [case failure source of None \<Rightarrow> length (texts source) + 1 | Some e \<Rightarrow> 999]"
proof -
  have "map (\<lambda>i. Suc i) [0..<n] = [1..<Suc n]" for n
    using map_Suc_upt [of 0 n] by simp
  then show ?thesis
    by (simp add: process_stream_eq token_calls_def mk_call_def comp_def split: option.split)
qed

lemma delivered_sequences_increase:
  assumes "failure source = None \<or> length (texts source) < 999"
  shows "sorted_wrt (<)
           (map (sequence \<circ> fst)
              (filter snd (published (process_stream publish sid url rg source))))"
proof -
  have "sorted_wrt (<)
          (map (sequence \<circ> fst) (published (process_stream publish sid url rg source)))"
    unfolding call_sequences using assms
    by (auto simp add: sorted_wrt_append split: option.split)
  then have "sorted_wrt (\<lambda>x y. (sequence \<circ> fst) x < (sequence \<circ> fst) y)
          (published (process_stream publish sid url rg source))"
    by (simp only: sorted_wrt_map)
  then have "sorted_wrt (\<lambda>x y. (sequence \<circ> fst) x < (sequence \<circ> fst) y)
          (filter snd (published (process_stream publish sid url rg source)))"
    by (rule sorted_wrt_filter)
  then show ?thesis
    by (simp only: sorted_wrt_map)
qed

section \<open>The session-start resolver and the default prompt\<close>

text \<open>
  C9 (amended).  For a request whose arguments carry a prompt string, with the queue URL
  configured, the resolver returns a dict with \<open>sessionId\<close> the UUID it drew and hands
  one message with that prompt to \<open>send_message\<close>.  When \<open>send_message\<close> returns, the
  status is \<open>"streaming_started"\<close> and a \<open>message\<close> field is present; when it raises,
  the status is \<open>"error"\<close>, there is no \<open>message\<close> field and the description is in the
  field \<open>error\<close>.
\<close>

theorem session_start_response:
  assumes "STREAMING_QUEUE_URL w = Some q"
    and "map_of kvs ''prompt'' = Some (JStr p)"
  shows "case request_lambda_handler w (Some (JObj kvs)) of
           Raised e \<Rightarrow> False
         | Returned (resp, msgs) \<Rightarrow>
             msgs = [queue_message w (JStr p)] \<and>
             subscript resp ''sessionId'' = Returned (JStr (uuid4 w)) \<and>
             (case send_message w q (queue_message w (JStr p)) of
                Inr message_id \<Rightarrow>
                  subscript resp ''status'' = Returned (JStr ''streaming_started'') \<and>
                  subscript resp ''message'' = Returned (JStr
                    ''AI streaming session initiated. Subscribe to receive real-time tokens.'')
              | Inl error_msg \<Rightarrow>
                  subscript resp ''status'' = Returned (JStr ''error'') \<and>
                  subscript resp ''message'' = Raised (KeyError ''message'') \<and>
                  subscript resp ''error'' =
                    Returned (JStr (''Failed to initiate streaming: '' @ error_msg)))"
  using assms
  by (simp add: request_lambda_handler_def Let_def split: sum.split)

theorem session_start_response_witness:
  "request_lambda_handler example_start_world (Some (JObj [(''prompt'', JStr ''Hi'')])) =
     Returned
       (JObj [(''sessionId'', JStr ''u-1''),
              (''status'', JStr ''streaming_started''),
              (''message'', JStr
                 ''AI streaming session initiated. Subscribe to receive real-time tokens.''),
              (''timestamp'', JStr ''2025-01-01T00:00:00'')],
        [JObj [(''prompt'', JStr ''Hi''), (''sessionId'', JStr ''u-1''),
               (''requestId'', JStr ''req''), (''timestamp'', JStr ''2025-01-01T00:00:00'')]])"
  using session_start_response [of example_start_world "''https://queue''"
      "[(''prompt'', JStr ''Hi'')]" "''Hi''"]
  by (simp add: request_lambda_handler_def example_start_world_def accepting_queue_def
        example_clock_def queue_message_def)

text \<open>
  On a successful enqueue the status returned is \<open>"streaming_started"\<close>, which is neither
  \<open>"started"\<close> nor \<open>"error"\<close>.
\<close>

theorem status_is_streaming_started:
  "(case request_lambda_handler example_start_world (Some (JObj [(''prompt'', JStr ''Hi'')])) of
      Raised e \<Rightarrow> Raised e
    | Returned (resp, msgs) \<Rightarrow> subscript resp ''status'') =
   Returned (JStr ''streaming_started'') \<and>
   JStr ''streaming_started'' \<noteq> JStr ''started'' \<and>
   JStr ''streaming_started'' \<noteq> JStr ''error''"
  by (simp add: request_lambda_handler_def example_start_world_def accepting_queue_def)

text \<open>
  C10.  A request without a prompt is not rejected.  The resolver, on arguments without
  the key \<open>prompt\<close> (or an event without arguments), behaves as on the prompt
  \<open>"Hello, how are you?"\<close>: that prompt is put in the queued message.  The WebSocket
  handler, on a body that parses to a dict without the key \<open>prompt\<close>, answers 200 after
  the whole relay run on the stream Bedrock gives for that default prompt.
\<close>

theorem missing_prompt_defaults:
  assumes "map_of args ''prompt'' = None"
    and "STREAMING_QUEUE_URL w = Some q"
    and "json_loads b = Parsed (JObj kvs)"
    and "map_of kvs ''prompt'' = None"
    and "dict_get (JObj kvs) ''options'' (JObj []) = Returned opts"
    and "dict_get opts ''max_tokens'' (JNum 1000) = Returned max_tokens"
  shows "request_lambda_handler w (Some (JObj args)) =
           request_lambda_handler w (Some (JObj [(''prompt'', JStr ''Hello, how are you?'')])) \<and>
         request_lambda_handler w None =
           request_lambda_handler w (Some (JObj [(''prompt'', JStr ''Hello, how are you?'')])) \<and>
         (case request_lambda_handler w (Some (JObj args)) of
            Raised e \<Rightarrow> False
          | Returned (resp, msgs) \<Rightarrow> msgs = [queue_message w (JStr ''Hello, how are you?'')]) \<and>
         process_streaming_request (Some url) (Some rg) bedrock' publish
             (queue_message w (JStr ''Hello, how are you?'')) =
           Returned (process_stream publish (JStr (uuid4 w)) url rg
                       (bedrock' (JStr ''Hello, how are you?''))) \<and>
         stream_lambda_handler json_loads bedrock post
             \<lparr>connectionId = cid, event_body = Some b\<rparr> rid =
           Returned
             \<lparr>statusCode = 200,
              response_body = JObj [(''message'', JStr ''AI streaming request processed''),
                                    (''requestId'', JStr rid)],
              run = stream_response post cid rid
                      (bedrock (JStr ''Hello, how are you?'') max_tokens)\<rparr>"
  using assms
  by (simp add: request_lambda_handler_def stream_lambda_handler_def
        process_streaming_request_def queue_message_def Let_def split: sum.split)

theorem missing_prompt_defaults_witness:
  "request_lambda_handler example_start_world (Some (JObj [])) =
     Returned
       (JObj [(''sessionId'', JStr ''u-1''),
              (''status'', JStr ''streaming_started''),
              (''message'', JStr
                 ''AI streaming session initiated. Subscribe to receive real-time tokens.''),
              (''timestamp'', JStr ''2025-01-01T00:00:00'')],
        [JObj [(''prompt'', JStr ''Hello, how are you?''), (''sessionId'', JStr ''u-1''),
               (''requestId'', JStr ''req''), (''timestamp'', JStr ''2025-01-01T00:00:00'')]]) \<and>
   stream_lambda_handler example_loads example_bedrock all_ok
       \<lparr>connectionId = ''c1'', event_body = Some ''{}''\<rparr> ''req'' =
     Returned
       \<lparr>statusCode = 200,
        response_body = JObj [(''message'', JStr ''AI streaming request processed''),
                              (''requestId'', JStr ''req'')],
        run = \<lparr>count = 1,
               posts =
                 [(\<lparr>ConnectionId = ''c1'', Data = token_message ''Fine'' 1\<rparr>, Ok),
                  (\<lparr>ConnectionId = ''c1'', Data = complete_message 1 ''req''\<rparr>, Ok)],
               logged = [StreamingCompleted 1]\<rparr>\<rparr>"
  using missing_prompt_defaults [of "[]" example_start_world "''https://queue''"
      example_loads "''{}''" "[]" "JObj []" "JNum 1000" "''url''" "''eu''"
      "\<lambda>prompt. example_bedrock prompt (JNum 1000)" all_true example_bedrock all_ok
      "''c1''" "''req''"]
  by (simp add: request_lambda_handler_def example_start_world_def accepting_queue_def
        example_clock_def queue_message_def example_loads_def example_bedrock_def
        stream_response_def all_ok_def Let_def)

end
